theory Spec2Isabelle
  imports Main
begin

section \<open>The system controller: command records, clock and host\<close>

text \<open>
  The controller of \<^verbatim>\<open>src/system_controller.py\<close> receives command records from a
  realtime database and turns them into calls of host programs. The embedding below
  follows the class \<^verbatim>\<open>SystemController\<close> method by method.

  A command record is the Python dict handed to \<^verbatim>\<open>process_command\<close>: an association
  list from keys to JSON values. The data model has integer and string fields, so a
  value is one of the two.
\<close>

datatype jval = JInt int | JStr string

type_synonym command_record = "(string \<times> jval) list"

text \<open>\<^verbatim>\<open>data.get(k)\<close>: the value under the key, \<open>None\<close> when the key is absent.\<close>

definition dict_get :: "command_record \<Rightarrow> string \<Rightarrow> jval option" where
  "dict_get data k = map_of data k"

text \<open>
  Python's truth value of what \<^verbatim>\<open>data.get\<close> returned: \<^verbatim>\<open>None\<close>, the integer 0 and
  the empty string are false.
\<close>

fun truthy :: "jval option \<Rightarrow> bool" where
  "truthy None = False"
| "truthy (Some (JInt n)) = (n \<noteq> 0)"
| "truthy (Some (JStr s)) = (s \<noteq> [])"

text \<open>
  The exceptions that the modelled calls raise. All five are subclasses of Python's
  \<^verbatim>\<open>Exception\<close>. \<open>ValueError\<close> also stands for the \<^verbatim>\<open>OverflowError\<close> that the
  division and \<^verbatim>\<open>datetime.fromtimestamp\<close> raise on still larger arguments.
\<close>

datatype py_error = TypeError | ValueError | OSError | TimeoutExpired | UnicodeDecodeError

subsection \<open>The host\<close>

text \<open>
  The host answers each call of the controller. Starting a program from an argument
  vector either fails (the program is not installed: \<^verbatim>\<open>subprocess.run\<close> raises an
  \<^verbatim>\<open>OSError\<close>) or completes with an exit code and its standard output. A shell command
  run with \<^verbatim>\<open>text=True\<close> completes with an exit code and its output decoded to text, a
  list of Unicode code points; or it runs into the timeout, or the shell cannot be
  started, or the command completes with output that does not decode.

  The host also has a time zone: \<open>utcoffset\<close> gives, for an instant in seconds since the
  epoch, the seconds that the C library's \<^verbatim>\<open>localtime\<close> adds to it to get local time
  (3600 for central European time, 7200 for its summer time). Time is POSIX time,
  without leap seconds.
\<close>

type_synonym unicode = "nat list"

datatype shell_result = Exited int unicode | Timeout | SpawnError | Undecodable

record host =
  exec :: "string list \<Rightarrow> (int \<times> string) option"
  sh :: "string \<Rightarrow> shell_result"
  utcoffset :: "int \<Rightarrow> int"

subsection \<open>Floating point: \<^verbatim>\<open>timestamp / 1000\<close>\<close>

text \<open>
  The quotient of two Python integers is the binary64 number nearest to the exact
  quotient, ties going to the even significand. A binary64 number is kept as a fraction
  whose denominator is a power of two. \<open>to_double n d\<close> rounds the fraction \<open>n / d\<close>
  (\<open>d\<close> positive) to 53 significant bits. The exponent range is not modelled: a quotient
  too large for binary64 makes the division itself raise, and its value here lies beyond
  the year 9999, where \<open>fromtimestamp\<close> below raises as well.
\<close>

type_synonym double = "int \<times> int"

fun bit_length :: "nat \<Rightarrow> nat" where
  "bit_length n = (if n = 0 then 0 else Suc (bit_length (n div 2)))"

declare bit_length.simps [simp del]

text \<open>\<open>n / d\<close> rounded to the nearest integer, a tie to the even one.\<close>

definition round_half_even :: "int \<Rightarrow> int \<Rightarrow> int" where
  "round_half_even n d =
     (let f = n div d; r = n mod d
      in if 2 * r < d then f else if d < 2 * r then f + 1 else if even f then f else f + 1)"

definition to_double :: "int \<Rightarrow> int \<Rightarrow> double" where
  "to_double n d =
     (if n = 0 then (0, 1)
      else
        let a = \<bar>n\<bar>;
            k = int (bit_length (nat a)) - int (bit_length (nat d)) - 53;
            N = (if 0 \<le> k then a else a * 2 ^ nat (- k));
            D = (if 0 \<le> k then d * 2 ^ nat k else d);
            up = (2 ^ 53 * D \<le> N);
            k' = (if up then k + 1 else k);
            m = sgn n * round_half_even N (if up then 2 * D else D)
        in if 0 \<le> k' then (m * 2 ^ nat k', 1) else (m, 2 ^ nat (- k')))"

definition true_divide :: "int \<Rightarrow> int \<Rightarrow> double" where
  "true_divide a b = to_double a b"

subsection \<open>\<^verbatim>\<open>datetime.fromtimestamp\<close> and \<^verbatim>\<open>datetime.now\<close>\<close>

text \<open>
  A naive \<^verbatim>\<open>datetime\<close> is the number of microseconds from the naive
  \<^verbatim>\<open>1970-01-01 00:00:00\<close> to it; a \<^verbatim>\<open>timedelta\<close> is a number of microseconds.
  \<^verbatim>\<open>total_seconds() < c\<close> compares the microseconds with \<open>c * 10^6\<close>: the constants of
  the source (2 and 0.5) are exact in binary64.

  \<^verbatim>\<open>datetime.fromtimestamp\<close> is followed as CPython implements it in C on Linux, the
  host the controller is written for. It splits its argument into whole seconds and
  microseconds: the fraction is multiplied by \<open>10^6\<close> in binary64 and rounded half to
  even.
\<close>

definition to_timeval :: "double \<Rightarrow> int \<times> int" where
  "to_timeval q =
     (let qn = fst q; qd = snd q;
          intpart = (if 0 \<le> qn then qn div qd else - ((- qn) div qd));
          p = to_double ((qn - intpart * qd) * 1000000) qd;
          us = round_half_even (fst p) (snd p)
      in if 1000000 \<le> us then (intpart + 1, us - 1000000)
         else if us < 0 then (intpart - 1, us + 1000000)
         else (intpart, us))"

text \<open>
  The seconds are then taken to local time. The result must lie in the years 1 to 9999:
  between \<^verbatim>\<open>0001-01-01 00:00:00\<close> and \<^verbatim>\<open>9999-12-31 23:59:59\<close>, counted in seconds
  from the naive epoch. So must the local time 24 hours earlier, which
  \<^verbatim>\<open>fromtimestamp\<close> computes to detect a repeated local hour, and, when the offset
  dropped in those 24 hours, a third local time in between. Otherwise a \<^verbatim>\<open>ValueError\<close>
  is raised.
\<close>

definition MIN_SECONDS :: int where
  "MIN_SECONDS = - 62135596800"

definition MAX_SECONDS :: int where
  "MAX_SECONDS = 253402300799"

definition in_year_range :: "int \<Rightarrow> bool" where
  "in_year_range s = (MIN_SECONDS \<le> s \<and> s \<le> MAX_SECONDS)"

definition local_seconds :: "host \<Rightarrow> int \<Rightarrow> int" where
  "local_seconds os t = t + utcoffset os t"

definition fromtimestamp :: "host \<Rightarrow> double \<Rightarrow> py_error + int" where
  "fromtimestamp os q =
     (let tv = to_timeval q; t = fst tv; us = snd tv;
          result_seconds = local_seconds os t;
          probe_seconds = local_seconds os (t - 86400);
          transition = result_seconds - probe_seconds - 86400
      in if \<not> in_year_range result_seconds then Inl ValueError
         else if \<not> in_year_range probe_seconds then Inl ValueError
         else if transition < 0 \<and> \<not> in_year_range (local_seconds os (t + transition))
         then Inl ValueError
         else Inr (result_seconds * 1000000 + us))"


text \<open>Command cooldown in seconds (line 33).\<close>

definition COMMAND_COOLDOWN :: int where
  "COMMAND_COOLDOWN = 2"

subsection \<open>\<^verbatim>\<open>is_command_fresh\<close> (lines 71 to 76)\<close>

text \<open>
  \<open>now\<close> is the naive local \<^verbatim>\<open>datetime\<close> that \<^verbatim>\<open>datetime.now()\<close> returned at line 76.
  A timestamp that is a non-empty string reaches the division \<^verbatim>\<open>timestamp / 1000\<close>, a
  \<^verbatim>\<open>TypeError\<close>.
\<close>

definition is_command_fresh :: "host \<Rightarrow> int \<Rightarrow> jval option \<Rightarrow> py_error + bool" where
  "is_command_fresh os now timestamp =
     (if \<not> truthy timestamp then Inr False
      else case timestamp of
        Some (JInt ms) \<Rightarrow>
          (case fromtimestamp os (true_divide ms 1000) of
             Inl e \<Rightarrow> Inl e
           | Inr cmd_time \<Rightarrow> Inr (now - cmd_time < COMMAND_COOLDOWN * 1000000))
      | _ \<Rightarrow> Inl TypeError)"

subsection \<open>Effects on the host\<close>

text \<open>
  What the controller does to the host is a trace of events: a process started from an
  argument vector (\<^verbatim>\<open>subprocess.run([...], capture_output=True)\<close>), a shell started on a
  command line under a timeout in seconds (\<^verbatim>\<open>subprocess.run(command, shell=True, ...,
  timeout=10)\<close>), and a line printed on the console. There is one \<open>message\<close> for each
  \<^verbatim>\<open>print\<close> of the methods modelled; the emoji that start the lines are left out.
\<close>

datatype message =
    PlayPause | NextTrack | PreviousTrack | VolumeUp | VolumeDown | MuteToggle
  | ScreenLocked | Screenshot | BrowserOpened | SpotifyOpened | TerminalOpened
  | Custom jval | Output unicode | CommandFailed py_error
  | UnknownAction "jval option"

datatype event = Spawn "string list" | SpawnShell string nat | Print message

text \<open>
  A statement yields the events it caused and the exception it raised, if any.
  \<open>seq a b\<close> is \<^verbatim>\<open>a; b\<close>: \<open>b\<close> runs only when \<open>a\<close> raised nothing.
\<close>

type_synonym stmt = "event list \<times> py_error option"

definition seq :: "stmt \<Rightarrow> stmt \<Rightarrow> stmt" where
  "seq a b = (case snd a of Some e \<Rightarrow> a | None \<Rightarrow> (fst a @ fst b, snd b))"

definition print :: "message \<Rightarrow> stmt" where
  "print m = ([Print m], None)"

text \<open>\<^verbatim>\<open>subprocess.run(argv, capture_output=True)\<close>, its result unused.\<close>

definition subprocess_run :: "host \<Rightarrow> string list \<Rightarrow> stmt" where
  "subprocess_run os argv =
     (case exec os argv of
        None \<Rightarrow> ([Spawn argv], Some OSError)
      | Some _ \<Rightarrow> ([Spawn argv], None))"

subsection \<open>Media controls and system shortcuts (lines 79 to 134)\<close>

definition play_pause :: "host \<Rightarrow> stmt" where
  "play_pause os = seq (subprocess_run os [''playerctl'', ''play-pause'']) (print PlayPause)"

definition next_track :: "host \<Rightarrow> stmt" where
  "next_track os = seq (subprocess_run os [''playerctl'', ''next'']) (print NextTrack)"

definition previous_track :: "host \<Rightarrow> stmt" where
  "previous_track os =
     seq (subprocess_run os [''playerctl'', ''previous'']) (print PreviousTrack)"

definition volume_up :: "host \<Rightarrow> stmt" where
  "volume_up os =
     seq (subprocess_run os [''pactl'', ''set-sink-volume'', ''@DEFAULT_SINK@'', ''+5%''])
         (print VolumeUp)"

definition volume_down :: "host \<Rightarrow> stmt" where
  "volume_down os =
     seq (subprocess_run os [''pactl'', ''set-sink-volume'', ''@DEFAULT_SINK@'', ''-5%''])
         (print VolumeDown)"

definition mute :: "host \<Rightarrow> stmt" where
  "mute os =
     seq (subprocess_run os [''pactl'', ''set-sink-mute'', ''@DEFAULT_SINK@'', ''toggle''])
         (print MuteToggle)"

definition lock_screen :: "host \<Rightarrow> stmt" where
  "lock_screen os =
     seq (subprocess_run os [''gnome-screensaver-command'', ''-l''])
         (seq (subprocess_run os [''loginctl'', ''lock-session'']) (print ScreenLocked))"

definition screenshot :: "host \<Rightarrow> stmt" where
  "screenshot os = seq (subprocess_run os [''gnome-screenshot'', ''-i'']) (print Screenshot)"

definition open_browser :: "host \<Rightarrow> stmt" where
  "open_browser os =
     seq (subprocess_run os [''xdg-open'', ''https://google.com'']) (print BrowserOpened)"

definition open_spotify :: "host \<Rightarrow> stmt" where
  "open_spotify os = seq (subprocess_run os [''spotify'']) (print SpotifyOpened)"

definition open_terminal :: "host \<Rightarrow> stmt" where
  "open_terminal os = seq (subprocess_run os [''gnome-terminal'']) (print TerminalOpened)"

subsection \<open>\<^verbatim>\<open>run_custom\<close> (lines 137 to 145)\<close>

text \<open>
  \<^verbatim>\<open>str.strip()\<close> removes the white space at both ends: the code points for which
  \<^verbatim>\<open>str.isspace()\<close> holds.
\<close>

definition is_space :: "nat \<Rightarrow> bool" where
  "is_space c =
     (c \<in> set [0x09, 0x0A, 0x0B, 0x0C, 0x0D, 0x1C, 0x1D, 0x1E, 0x1F, 0x20, 0x85, 0xA0,
        0x1680, 0x2000, 0x2001, 0x2002, 0x2003, 0x2004, 0x2005, 0x2006, 0x2007, 0x2008,
        0x2009, 0x200A, 0x2028, 0x2029, 0x202F, 0x205F, 0x3000])"

definition strip :: "unicode \<Rightarrow> unicode" where
  "strip s = rev (dropWhile is_space (rev (dropWhile is_space s)))"

text \<open>
  \<^verbatim>\<open>subprocess.run(command, shell=True, capture_output=True, text=True, timeout=10)\<close>:
  the standard output of the completed command as text, or the exception. A command
  that is not a string is refused with a \<^verbatim>\<open>TypeError\<close> before any process starts;
  output that does not decode raises a \<^verbatim>\<open>UnicodeDecodeError\<close> after the command has
  run.
\<close>

definition subprocess_run_shell ::
    "host \<Rightarrow> jval \<Rightarrow> nat \<Rightarrow> event list \<times> (py_error + unicode)" where
  "subprocess_run_shell os command timeout =
     (case command of
        JInt _ \<Rightarrow> ([], Inl TypeError)
      | JStr c \<Rightarrow>
          (case sh os c of
             Exited rc out \<Rightarrow> ([SpawnShell c timeout], Inr out)
           | Timeout \<Rightarrow> ([SpawnShell c timeout], Inl TimeoutExpired)
           | SpawnError \<Rightarrow> ([SpawnShell c timeout], Inl OSError)
           | Undecodable \<Rightarrow> ([SpawnShell c timeout], Inl UnicodeDecodeError)))"

text \<open>
  \<^verbatim>\<open>try: body except Exception as e: handler\<close>. Every \<open>py_error\<close> is an
  \<^verbatim>\<open>Exception\<close>, so the handler takes each of them; the events of the body up to the
  exception stay.
\<close>

definition try_except :: "stmt \<Rightarrow> (py_error \<Rightarrow> stmt) \<Rightarrow> stmt" where
  "try_except body handler =
     (case snd body of None \<Rightarrow> body | Some e \<Rightarrow> seq (fst body, None) (handler e))"

definition run_custom_body :: "host \<Rightarrow> jval \<Rightarrow> stmt" where
  "run_custom_body os command =
     (case subprocess_run_shell os command 10 of
        (evs, Inl e) \<Rightarrow> (evs, Some e)
      | (evs, Inr out) \<Rightarrow>
          seq (evs, None)
            (seq (print (Custom command))
                 (if out \<noteq> [] then print (Output (strip out)) else ([], None))))"

definition run_custom :: "host \<Rightarrow> jval \<Rightarrow> stmt" where
  "run_custom os command =
     try_except (run_custom_body os command) (\<lambda>e. print (CommandFailed e))"

subsection \<open>\<^verbatim>\<open>__init__\<close> and \<^verbatim>\<open>process_command\<close> (lines 37 to 41 and 148 to 187)\<close>

record controller =
  last_command_time :: int
  running :: bool

text \<open>
  \<open>now\<close> is the \<^verbatim>\<open>datetime\<close> that \<^verbatim>\<open>datetime.now()\<close> returned at line 38; ten seconds are
  \<open>10 * 10^6\<close> microseconds. The connection to the database and the signal handlers
  that \<^verbatim>\<open>__init__\<close> sets up next are outside the controller's own state.
\<close>

definition init :: "int \<Rightarrow> controller" where
  "init now = \<lparr>last_command_time = now - 10 * 1000000, running = True\<rparr>"

text \<open>The dict \<^verbatim>\<open>handlers\<close> of lines 167 to 180, in its order.\<close>

definition handlers :: "(string \<times> (host \<Rightarrow> stmt)) list" where
  "handlers =
     [(''play'', play_pause),
      (''pause'', play_pause),
      (''next'', next_track),
      (''previous'', previous_track),
      (''volume_up'', volume_up),
      (''volume_down'', volume_down),
      (''mute'', mute),
      (''lock'', lock_screen),
      (''screenshot'', screenshot),
      (''browser'', open_browser),
      (''spotify'', open_spotify),
      (''terminal'', open_terminal)]"

text \<open>
  \<^verbatim>\<open>action in handlers\<close> and \<^verbatim>\<open>handlers[action]\<close>: the keys are strings, so an absent
  action (\<^verbatim>\<open>None\<close>) and an integer are not among them.
\<close>

fun lookup_handler :: "jval option \<Rightarrow> (host \<Rightarrow> stmt) option" where
  "lookup_handler (Some (JStr s)) = map_of handlers s"
| "lookup_handler _ = None"

text \<open>Lines 182 to 187: the routing of an accepted record.\<close>

definition dispatch :: "host \<Rightarrow> jval option \<Rightarrow> command_record \<Rightarrow> stmt" where
  "dispatch os action data =
     (case lookup_handler action of
        Some h \<Rightarrow> h os
      | None \<Rightarrow>
          (case (action = Some (JStr ''custom''), dict_get data ''command'') of
             (True, Some command) \<Rightarrow> run_custom os command
           | _ \<Rightarrow> print (UnknownAction action)))"

text \<open>
  How a call of \<^verbatim>\<open>process_command\<close> ended: at one of its three \<^verbatim>\<open>return\<close> statements
  (lines 151, 158 and 163), with an exception out of \<^verbatim>\<open>is_command_fresh\<close>, or after the
  routing of lines 182 to 187, which itself ended normally or with an exception.
\<close>

datatype ending =
    ReturnNoData | ReturnStale | ReturnDuplicate
  | RaisedFresh py_error | Dispatched "py_error option"

record result =
  ctl :: controller
  events :: "event list"
  how :: ending

text \<open>
  The wall clock is read twice: \<open>now1\<close> is what \<^verbatim>\<open>datetime.now()\<close> returned inside
  \<^verbatim>\<open>is_command_fresh\<close> (line 76) and \<open>now2\<close> what it returned at line 161. The
  assignment of line 164 precedes the routing, so the controller returned carries it also
  when a handler raises.
\<close>

definition process_command ::
    "controller \<Rightarrow> host \<Rightarrow> int \<Rightarrow> int \<Rightarrow> command_record \<Rightarrow> result" where
  "process_command self os now1 now2 data =
     (if data = [] then \<lparr>ctl = self, events = [], how = ReturnNoData\<rparr>
      else
        let action = dict_get data ''action'';
            timestamp = dict_get data ''timestamp''
        in case is_command_fresh os now1 timestamp of
             Inl e \<Rightarrow> \<lparr>ctl = self, events = [], how = RaisedFresh e\<rparr>
           | Inr False \<Rightarrow> \<lparr>ctl = self, events = [], how = ReturnStale\<rparr>
           | Inr True \<Rightarrow>
               if now2 - last_command_time self < 500000
               then \<lparr>ctl = self, events = [], how = ReturnDuplicate\<rparr>
               else
                 let self' = self\<lparr>last_command_time := now2\<rparr>;
                     d = dispatch os action data
                 in \<lparr>ctl = self', events = fst d, how = Dispatched (snd d)\<rparr>)"

subsection \<open>A sequence of deliveries (lines 202 to 206)\<close>

text \<open>
  The database client calls \<^verbatim>\<open>listener\<close>, and through it \<^verbatim>\<open>process_command\<close>, once for
  every record delivered, one call after the other on the same controller. A delivery is
  the record with the host's answers and the two clock readings of its call.
  \<open>accepted_times\<close> lists the readings of line 161 of the records that reached the
  routing. The controller keeps its state when a call raises, and the sequence goes on;
  a client that stops at the exception accepts a prefix of this list.
\<close>

type_synonym delivery = "host \<times> int \<times> int \<times> command_record"

fun accepted_times :: "controller \<Rightarrow> delivery list \<Rightarrow> int list" where
  "accepted_times self [] = []"
| "accepted_times self ((os, now1, now2, data) # rest) =
     (let r = process_command self os now1 now2 data
      in (case how r of Dispatched x \<Rightarrow> [now2] | _ \<Rightarrow> []) @ accepted_times (ctl r) rest)"

section \<open>Properties\<close>

subsection \<open>The conversion of a timestamp\<close>

text \<open>The binary64 arithmetic on the timestamps used below, step by step.\<close>

lemmas float_defs = to_double_def round_half_even_def Let_def bit_length.simps

lemma timeval_1700000000000:
  "to_timeval (true_divide 1700000000000 1000) = (1700000000, 0)"
  apply (simp add: true_divide_def float_defs)
  apply (simp add: to_timeval_def Let_def)
  apply (simp add: float_defs)
  done

lemma timeval_1700000001000:
  "to_timeval (true_divide 1700000001000 1000) = (1700000001, 0)"
  apply (simp add: true_divide_def float_defs)
  apply (simp add: to_timeval_def Let_def)
  apply (simp add: float_defs)
  done

lemma timeval_1700000001100:
  "to_timeval (true_divide 1700000001100 1000) = (1700000001, 100000)"
  apply (simp add: true_divide_def float_defs)
  apply (simp add: to_timeval_def Let_def)
  apply (simp add: float_defs)
  done

lemma timeval_1700000001500:
  "to_timeval (true_divide 1700000001500 1000) = (1700000001, 500000)"
  apply (simp add: true_divide_def float_defs)
  apply (simp add: to_timeval_def Let_def)
  apply (simp add: float_defs)
  done







lemmas range_defs =
  local_seconds_def in_year_range_def MIN_SECONDS_def MAX_SECONDS_def

lemma fromtimestamp_timeval:
  assumes "to_timeval q = (t, us)"
  shows "fromtimestamp os q =
     (if \<not> in_year_range (local_seconds os t) then Inl ValueError
      else if \<not> in_year_range (local_seconds os (t - 86400)) then Inl ValueError
      else if local_seconds os t - local_seconds os (t - 86400) - 86400 < 0 \<and>
              \<not> in_year_range
                  (local_seconds os
                     (t + (local_seconds os t - local_seconds os (t - 86400) - 86400)))
      then Inl ValueError
      else Inr (local_seconds os t * 1000000 + us))"
  using assms by (simp add: fromtimestamp_def Let_def)


lemma is_command_fresh_int:
  assumes "ms \<noteq> 0"
  shows "is_command_fresh os now (Some (JInt ms)) =
     (case fromtimestamp os (true_divide ms 1000) of
        Inl e \<Rightarrow> Inl e
      | Inr cmd_time \<Rightarrow> Inr (now - cmd_time < 2000000))"
  using assms unfolding is_command_fresh_def COMMAND_COOLDOWN_def
  by (simp split: sum.splits)



subsection \<open>The paths through \<^verbatim>\<open>is_command_fresh\<close> and \<^verbatim>\<open>process_command\<close>\<close>

lemma is_command_fresh_falsy:
  "\<not> truthy timestamp \<Longrightarrow> is_command_fresh os now timestamp = Inr False"
  by (simp add: is_command_fresh_def)

lemma process_command_duplicate:
  assumes "is_command_fresh os now1 (dict_get data ''timestamp'') = Inr True"
    "now2 - last_command_time self < 500000"
  shows "process_command self os now1 now2 data = \<lparr>ctl = self, events = [], how = ReturnDuplicate\<rparr>"
  using assms by (auto simp add: process_command_def dict_get_def is_command_fresh_def)

lemma fresh_nonempty:
  "is_command_fresh os now1 (dict_get data ''timestamp'') = Inr True \<Longrightarrow> data \<noteq> []"
  by (auto simp add: dict_get_def is_command_fresh_def)

lemma process_command_accepted:
  assumes "is_command_fresh os now1 (dict_get data ''timestamp'') = Inr True"
    "\<not> now2 - last_command_time self < 500000"
  shows "process_command self os now1 now2 data =
    \<lparr>ctl = self\<lparr>last_command_time := now2\<rparr>,
     events = fst (dispatch os (dict_get data ''action'') data),
     how = Dispatched (snd (dispatch os (dict_get data ''action'') data))\<rparr>"
  using assms fresh_nonempty[OF assms(1)] by (simp add: process_command_def Let_def)

lemma dict_get_Some_nonempty: "dict_get data k = Some v \<Longrightarrow> data \<noteq> []"
  by (auto simp: dict_get_def)

lemma process_command_cases:
  "process_command self os now1 now2 data =
    (if data = [] then \<lparr>ctl = self, events = [], how = ReturnNoData\<rparr>
     else case is_command_fresh os now1 (dict_get data ''timestamp'') of
       Inl e \<Rightarrow> \<lparr>ctl = self, events = [], how = RaisedFresh e\<rparr>
     | Inr False \<Rightarrow> \<lparr>ctl = self, events = [], how = ReturnStale\<rparr>
     | Inr True \<Rightarrow>
        if now2 - last_command_time self < 500000
        then \<lparr>ctl = self, events = [], how = ReturnDuplicate\<rparr>
        else \<lparr>ctl = self\<lparr>last_command_time := now2\<rparr>,
              events = fst (dispatch os (dict_get data ''action'') data),
              how = Dispatched (snd (dispatch os (dict_get data ''action'') data))\<rparr>)"
  by (simp add: process_command_def Let_def split: sum.splits bool.splits)

lemma process_command_dispatched:
  assumes "how (process_command self os now1 now2 data) = Dispatched x"
  shows "is_command_fresh os now1 (dict_get data ''timestamp'') = Inr True"
    and "\<not> now2 - last_command_time self < 500000"
    and "ctl (process_command self os now1 now2 data) = self\<lparr>last_command_time := now2\<rparr>"
    and "dispatch os (dict_get data ''action'') data =
           (events (process_command self os now1 now2 data), x)"
  using assms
  by (auto simp add: process_command_cases split: if_splits sum.splits bool.splits)

lemma process_command_not_dispatched:
  assumes "\<forall>x. how (process_command self os now1 now2 data) \<noteq> Dispatched x"
  shows "ctl (process_command self os now1 now2 data) = self"
    and "events (process_command self os now1 now2 data) = []"
  using assms
  by (auto simp add: process_command_cases split: if_splits sum.splits bool.splits)

subsection \<open>Accepted commands in a sequence of deliveries\<close>

lemma accepted_times_accept:
  assumes "is_command_fresh os now1 (dict_get data ''timestamp'') = Inr True"
    and "\<not> now2 - last_command_time self < 500000"
  shows "accepted_times self ((os, now1, now2, data) # rest) =
     now2 # accepted_times (self\<lparr>last_command_time := now2\<rparr>) rest"
  using assms by (simp add: process_command_accepted)

lemma accepted_times_reject:
  assumes "\<not> (is_command_fresh os now1 (dict_get data ''timestamp'') = Inr True \<and>
         \<not> now2 - last_command_time self < 500000)"
  shows "accepted_times self ((os, now1, now2, data) # rest) = accepted_times self rest"
proof -
  have no: "\<forall>x. how (process_command self os now1 now2 data) \<noteq> Dispatched x"
    using assms process_command_dispatched(1,2) by blast
  then have "ctl (process_command self os now1 now2 data) = self"
    by (rule process_command_not_dispatched(1))
  then show ?thesis
    using no by (auto simp add: Let_def split: ending.splits)
qed

lemma accepted_times_after_last:
  "t \<in> set (accepted_times self ds) \<Longrightarrow> last_command_time self + 500000 \<le> t"
proof (induction ds arbitrary: self)
  case Nil
  then show ?case by simp
next
  case (Cons d ds)
  obtain os now1 now2 data where d: "d = (os, now1, now2, data)"
    by (cases d) auto
  show ?case
  proof (cases "is_command_fresh os now1 (dict_get data ''timestamp'') = Inr True \<and>
         \<not> now2 - last_command_time self < 500000")
    case True
    then have "accepted_times self (d # ds) =
        now2 # accepted_times (self\<lparr>last_command_time := now2\<rparr>) ds"
      unfolding d by (intro accepted_times_accept) simp_all
    then have "t = now2 \<or> t \<in> set (accepted_times (self\<lparr>last_command_time := now2\<rparr>) ds)"
      using Cons.prems by simp
    then show ?thesis
    proof
      assume "t = now2"
      then show ?thesis using True by simp
    next
      assume "t \<in> set (accepted_times (self\<lparr>last_command_time := now2\<rparr>) ds)"
      from Cons.IH [OF this] show ?thesis using True by simp
    qed
  next
    case False
    then have "accepted_times self (d # ds) = accepted_times self ds"
      unfolding d by (rule accepted_times_reject)
    then have "t \<in> set (accepted_times self ds)"
      using Cons.prems by simp
    then show ?thesis by (rule Cons.IH)
  qed
qed

lemma accepted_times_window:
  "length (filter (\<lambda>t. w \<le> t \<and> t < w + 500000) (accepted_times self ds)) \<le> 1"
proof (induction ds arbitrary: self)
  case Nil
  then show ?case by simp
next
  case (Cons d ds)
  obtain os now1 now2 data where d: "d = (os, now1, now2, data)"
    by (cases d) auto
  show ?case
  proof (cases "is_command_fresh os now1 (dict_get data ''timestamp'') = Inr True \<and>
         \<not> now2 - last_command_time self < 500000")
    case True
    let ?rest = "accepted_times (self\<lparr>last_command_time := now2\<rparr>) ds"
    have eq: "accepted_times self (d # ds) = now2 # ?rest"
      using True unfolding d by (intro accepted_times_accept) simp_all
    show ?thesis
    proof (cases "w \<le> now2 \<and> now2 < w + 500000")
      case inside: True
      have "\<not> (w \<le> t \<and> t < w + 500000)" if "t \<in> set ?rest" for t
        using accepted_times_after_last [OF that] inside by simp
      then have "filter (\<lambda>t. w \<le> t \<and> t < w + 500000) ?rest = []"
        by (simp add: filter_empty_conv)
      then show ?thesis
        using eq by simp
    next
      case False
      then show ?thesis
        using eq Cons.IH [of "self\<lparr>last_command_time := now2\<rparr>"] by auto
    qed
  next
    case False
    then have "accepted_times self (d # ds) = accepted_times self ds"
      unfolding d by (rule accepted_times_reject)
    then show ?thesis
      using Cons.IH [of self] by simp
  qed
qed

subsection \<open>The routing and the handlers\<close>

lemmas handler_defs =
  play_pause_def next_track_def previous_track_def volume_up_def volume_down_def mute_def
  lock_screen_def screenshot_def open_browser_def open_spotify_def open_terminal_def

lemma fst_seq_subprocess_run:
  "fst (seq (subprocess_run os argv) b) =
     Spawn argv # (case exec os argv of None \<Rightarrow> [] | Some _ \<Rightarrow> fst b)"
  by (cases "exec os argv") (simp_all add: subprocess_run_def seq_def)

lemma handlers_keys:
  "map fst handlers =
     [''play'', ''pause'', ''next'', ''previous'', ''volume_up'', ''volume_down'', ''mute'',
      ''lock'', ''screenshot'', ''browser'', ''spotify'', ''terminal'']"
  by (simp add: handlers_def)

lemma handlers_custom: "map_of handlers ''custom'' = None"
  by (simp add: handlers_def)

lemma handler_spawns:
  assumes "map_of handlers s = Some h"
  shows "\<exists>argv rest. fst (h os) = Spawn argv # rest"
proof -
  have "(s, h) \<in> set handlers"
    using assms by (rule map_of_SomeD)
  then show ?thesis
    unfolding handlers_def handler_defs by (auto simp add: fst_seq_subprocess_run)
qed

lemma run_custom_string:
  "run_custom os (JStr c) =
     (SpawnShell c 10 #
        (case sh os c of
           Exited rc out \<Rightarrow>
             Print (Custom (JStr c)) # (if out = [] then [] else [Print (Output (strip out))])
         | Timeout \<Rightarrow> [Print (CommandFailed TimeoutExpired)]
         | SpawnError \<Rightarrow> [Print (CommandFailed OSError)]
         | Undecodable \<Rightarrow> [Print (CommandFailed UnicodeDecodeError)]),
      None)"
  by (simp add: run_custom_def run_custom_body_def try_except_def subprocess_run_shell_def
      seq_def print_def split: shell_result.splits)

lemma run_custom_int:
  "run_custom os (JInt n) = ([Print (CommandFailed TypeError)], None)"
  by (simp add: run_custom_def run_custom_body_def try_except_def subprocess_run_shell_def
      seq_def print_def)

lemma run_custom_no_raise: "snd (run_custom os command) = None"
  by (cases command) (simp_all add: run_custom_string run_custom_int)

lemma dispatch_handler:
  "lookup_handler action = Some h \<Longrightarrow> dispatch os action data = h os"
  by (simp add: dispatch_def)

lemma dispatch_custom:
  "dict_get data ''command'' = Some command \<Longrightarrow>
     dispatch os (Some (JStr ''custom'')) data = run_custom os command"
  by (simp add: dispatch_def handlers_custom)

lemma dispatch_unknown:
  assumes "lookup_handler action = None"
    and "action \<noteq> Some (JStr ''custom'') \<or> dict_get data ''command'' = None"
  shows "dispatch os action data = ([Print (UnknownAction action)], None)"
  using assms by (auto simp add: dispatch_def print_def split: option.splits bool.splits)

lemma map_of_handlers_None:
  "map_of handlers s = None \<longleftrightarrow>
     s \<notin> set [''play'', ''pause'', ''next'', ''previous'', ''volume_up'', ''volume_down'',
       ''mute'', ''lock'', ''screenshot'', ''browser'', ''spotify'', ''terminal'']"
  using handlers_keys by (metis map_of_eq_None_iff set_map)

text \<open>The definitions that evaluate a call of the controller on a concrete record.\<close>

lemmas conversions =
  fromtimestamp_timeval [OF timeval_1700000000000]
  fromtimestamp_timeval [OF timeval_1700000001000]
  fromtimestamp_timeval [OF timeval_1700000001100]
  fromtimestamp_timeval [OF timeval_1700000001500]

lemmas controller_defs =
  dict_get_def is_command_fresh_int conversions range_defs init_def process_command_cases
  dispatch_def handlers_def handler_defs subprocess_run_def seq_def print_def

subsection \<open>Freshness\<close>







text \<open>
  Claim C6. For a record without the key \<^verbatim>\<open>timestamp\<close>, whatever the clock readings and
  the controller's state: \<^verbatim>\<open>is_command_fresh\<close> returns \<open>False\<close>, and \<^verbatim>\<open>process_command\<close>
  returns early (at line 151 for the empty record, at line 158 otherwise) with the state
  unchanged and nothing run.
\<close>
theorem missing_timestamp_rejected:
  assumes "dict_get data ''timestamp'' = None"
  shows "is_command_fresh os now1 (dict_get data ''timestamp'') = Inr False
       \<and> ctl (process_command self os now1 now2 data) = self
       \<and> events (process_command self os now1 now2 data) = []
       \<and> (how (process_command self os now1 now2 data) = ReturnNoData \<or>
          how (process_command self os now1 now2 data) = ReturnStale)"
proof -
  have "is_command_fresh os now1 (dict_get data ''timestamp'') = Inr False"
    using assms by (simp add: is_command_fresh_falsy)
  then show ?thesis
    by (simp add: process_command_cases)
qed

text \<open>A record with an action only.\<close>
theorem missing_timestamp_rejected_witness:
  "dict_get [(''action'', JStr ''play'')] ''timestamp'' = None
   \<and> process_command (init 0)
        \<lparr>exec = (\<lambda>argv. Some (0, [])), sh = (\<lambda>c. Exited 0 []), utcoffset = (\<lambda>t. 0)\<rparr>
        1700000000000000 1700000000000001 [(''action'', JStr ''play'')]
     = \<lparr>ctl = init 0, events = [], how = ReturnStale\<rparr>"
  using missing_timestamp_rejected [of "[(''action'', JStr ''play'')]"
      "\<lparr>exec = (\<lambda>argv. Some (0, [])), sh = (\<lambda>c. Exited 0 []), utcoffset = (\<lambda>t. 0)\<rparr>"
      1700000000000000 "init 0" 1700000000000001]
  by (simp add: dict_get_def process_command_cases)

text \<open>
  Claim C9. The timestamp 0 is false in \<^verbatim>\<open>if not timestamp\<close>: for every reading of the
  clock \<^verbatim>\<open>is_command_fresh\<close> returns \<open>False\<close> on it, the value it returns on an absent
  timestamp, and \<^verbatim>\<open>process_command\<close> returns at line 158 with no effect.
\<close>
theorem zero_timestamp_as_absent:
  "is_command_fresh os now (Some (JInt 0)) = Inr False
   \<and> is_command_fresh os now (Some (JInt 0)) = is_command_fresh os now None
   \<and> (dict_get data ''timestamp'' = Some (JInt 0) \<longrightarrow>
        process_command self os now now2 data = \<lparr>ctl = self, events = [], how = ReturnStale\<rparr>)"
  by (auto simp add: is_command_fresh_falsy process_command_cases dest: dict_get_Some_nonempty)

text \<open>The timestamp 0 at a clock one second after the epoch.\<close>
theorem zero_timestamp_as_absent_witness:
  "dict_get [(''action'', JStr ''play''), (''timestamp'', JInt 0)] ''timestamp'' = Some (JInt 0)
   \<and> is_command_fresh
        \<lparr>exec = (\<lambda>argv. Some (0, [])), sh = (\<lambda>c. Exited 0 []), utcoffset = (\<lambda>t. 0)\<rparr>
        1000000 (Some (JInt 0)) = Inr False
   \<and> process_command (init 0)
        \<lparr>exec = (\<lambda>argv. Some (0, [])), sh = (\<lambda>c. Exited 0 []), utcoffset = (\<lambda>t. 0)\<rparr>
        1000000 1000001 [(''action'', JStr ''play''), (''timestamp'', JInt 0)]
     = \<lparr>ctl = init 0, events = [], how = ReturnStale\<rparr>"
  using zero_timestamp_as_absent [of
      "\<lparr>exec = (\<lambda>argv. Some (0, [])), sh = (\<lambda>c. Exited 0 []), utcoffset = (\<lambda>t. 0)\<rparr>"
      1000000 "[(''action'', JStr ''play''), (''timestamp'', JInt 0)]" "init 0" 1000001]
  by (simp add: dict_get_def)

subsection \<open>The interval between accepted commands\<close>



text \<open>
  Claim C2. Two records are processed one after the other; \<open>s1\<close> is the controller
  after the first. A second record that is fresh returns at line 163, with no effect,
  when the clock reading \<open>t2\<close> of line 161 is less than 0.5 seconds after
  \<^verbatim>\<open>last_command_time\<close>, and is accepted and routed when the gap is 0.5 seconds or
  more; the actions of the two records play no part. When the first record was accepted
  at the reading \<open>t1\<close>, \<^verbatim>\<open>last_command_time\<close> is \<open>t1\<close>, so the second is accepted
  exactly when \<open>t2 - t1\<close> is at least 0.5 seconds: two commands accepted in a row are
  never less than 0.5 seconds apart. And in any sequence of deliveries, from any
  controller, every window of 0.5 seconds that starts at an instant \<open>w\<close> holds the
  acceptance time of at most one command.
\<close>
theorem interval_check_between_two_commands:
  assumes s1: "s1 = ctl (process_command s0 os1 a1 t1 d1)"
    and fresh: "is_command_fresh os2 a2 (dict_get d2 ''timestamp'') = Inr True"
  shows "(t2 - last_command_time s1 < 500000 \<longrightarrow>
            process_command s1 os2 a2 t2 d2 = \<lparr>ctl = s1, events = [], how = ReturnDuplicate\<rparr>)
       \<and> (500000 \<le> t2 - last_command_time s1 \<longrightarrow>
            process_command s1 os2 a2 t2 d2 =
              \<lparr>ctl = s1\<lparr>last_command_time := t2\<rparr>,
               events = fst (dispatch os2 (dict_get d2 ''action'') d2),
               how = Dispatched (snd (dispatch os2 (dict_get d2 ''action'') d2))\<rparr>)
       \<and> ((\<exists>x1. how (process_command s0 os1 a1 t1 d1) = Dispatched x1) \<longrightarrow>
            last_command_time s1 = t1 \<and>
            ((\<exists>x2. how (process_command s1 os2 a2 t2 d2) = Dispatched x2) \<longleftrightarrow>
               500000 \<le> t2 - t1) \<and>
            (how (process_command s1 os2 a2 t2 d2) = ReturnDuplicate \<longleftrightarrow>
               t2 - t1 < 500000))
       \<and> length (filter (\<lambda>t. w \<le> t \<and> t < w + 500000) (accepted_times self ds)) \<le> 1"
proof -
  have dup: "process_command s1 os2 a2 t2 d2 = \<lparr>ctl = s1, events = [], how = ReturnDuplicate\<rparr>"
    if "t2 - last_command_time s1 < 500000"
    using fresh that by (simp add: process_command_duplicate)
  have acc: "process_command s1 os2 a2 t2 d2 =
      \<lparr>ctl = s1\<lparr>last_command_time := t2\<rparr>,
       events = fst (dispatch os2 (dict_get d2 ''action'') d2),
       how = Dispatched (snd (dispatch os2 (dict_get d2 ''action'') d2))\<rparr>"
    if "500000 \<le> t2 - last_command_time s1"
    using fresh that by (simp add: process_command_accepted)
  have both: "last_command_time s1 = t1 \<and>
      ((\<exists>x2. how (process_command s1 os2 a2 t2 d2) = Dispatched x2) \<longleftrightarrow>
         500000 \<le> t2 - t1) \<and>
      (how (process_command s1 os2 a2 t2 d2) = ReturnDuplicate \<longleftrightarrow> t2 - t1 < 500000)"
    if first: "\<exists>x1. how (process_command s0 os1 a1 t1 d1) = Dispatched x1"
  proof -
    obtain x1 where "how (process_command s0 os1 a1 t1 d1) = Dispatched x1"
      using first by blast
    from process_command_dispatched(3) [OF this]
    have last: "last_command_time s1 = t1"
      using s1 by simp
    show ?thesis
    proof (cases "t2 - t1 < 500000")
      case True
      then show ?thesis
        using last dup by simp
    next
      case False
      then show ?thesis
        using last acc by simp
    qed
  qed
  have window: "length (filter (\<lambda>t. w \<le> t \<and> t < w + 500000) (accepted_times self ds)) \<le> 1"
    by (rule accepted_times_window)
  show ?thesis
    using dup acc both window by blast
qed

text \<open>
  \<^verbatim>\<open>volume_up\<close> is accepted; a fresh \<^verbatim>\<open>volume_down\<close> 100 ms later is dropped, one
  exactly 500 ms later is accepted. Delivered in a row, the first and the third of
  these are accepted.
\<close>
theorem interval_check_between_two_commands_witness:
  "how (process_command (init 1700000000000000)
          \<lparr>exec = (\<lambda>argv. Some (0, [])), sh = (\<lambda>c. Exited 0 []), utcoffset = (\<lambda>t. 0)\<rparr>
          1700000001000100 1700000001000200
          [(''action'', JStr ''volume_up''), (''timestamp'', JInt 1700000001000)])
     = Dispatched None
   \<and> is_command_fresh
        \<lparr>exec = (\<lambda>argv. Some (0, [])), sh = (\<lambda>c. Exited 0 []), utcoffset = (\<lambda>t. 0)\<rparr>
        1700000001100100
        (dict_get [(''action'', JStr ''volume_down''), (''timestamp'', JInt 1700000001100)]
           ''timestamp'') = Inr True
   \<and> process_command \<lparr>last_command_time = 1700000001000200, running = True\<rparr>
        \<lparr>exec = (\<lambda>argv. Some (0, [])), sh = (\<lambda>c. Exited 0 []), utcoffset = (\<lambda>t. 0)\<rparr>
        1700000001100100 1700000001100200
        [(''action'', JStr ''volume_down''), (''timestamp'', JInt 1700000001100)]
     = \<lparr>ctl = \<lparr>last_command_time = 1700000001000200, running = True\<rparr>,
        events = [], how = ReturnDuplicate\<rparr>
   \<and> process_command \<lparr>last_command_time = 1700000001000200, running = True\<rparr>
        \<lparr>exec = (\<lambda>argv. Some (0, [])), sh = (\<lambda>c. Exited 0 []), utcoffset = (\<lambda>t. 0)\<rparr>
        1700000001500100 1700000001500200
        [(''action'', JStr ''volume_down''), (''timestamp'', JInt 1700000001500)]
     = \<lparr>ctl = \<lparr>last_command_time = 1700000001500200, running = True\<rparr>,
        events = [Spawn [''pactl'', ''set-sink-volume'', ''@DEFAULT_SINK@'', ''-5%''],
                  Print VolumeDown],
        how = Dispatched None\<rparr>
   \<and> accepted_times (init 1700000000000000)
        [(
            \<lparr>exec = (\<lambda>argv. Some (0, [])), sh = (\<lambda>c. Exited 0 []), utcoffset = (\<lambda>t. 0)\<rparr>,
          1700000001000100, 1700000001000200,
          [(''action'', JStr ''volume_up''), (''timestamp'', JInt 1700000001000)]),
         (
             \<lparr>exec = (\<lambda>argv. Some (0, [])), sh = (\<lambda>c. Exited 0 []), utcoffset = (\<lambda>t. 0)\<rparr>,
          1700000001100100, 1700000001100200,
          [(''action'', JStr ''volume_down''), (''timestamp'', JInt 1700000001100)]),
         (
             \<lparr>exec = (\<lambda>argv. Some (0, [])), sh = (\<lambda>c. Exited 0 []), utcoffset = (\<lambda>t. 0)\<rparr>,
          1700000001500100, 1700000001500200,
          [(''action'', JStr ''volume_down''), (''timestamp'', JInt 1700000001500)])]
     = [1700000001000200, 1700000001500200]"
proof -
  let ?H =
      "\<lparr>exec = (\<lambda>argv. Some (0, [])), sh = (\<lambda>c. Exited 0 []), utcoffset = (\<lambda>t. 0)\<rparr>"
  let ?d1 = "[(''action'', JStr ''volume_up''), (''timestamp'', JInt 1700000001000)]"
  let ?d2 = "[(''action'', JStr ''volume_down''), (''timestamp'', JInt 1700000001100)]"
  let ?d3 = "[(''action'', JStr ''volume_down''), (''timestamp'', JInt 1700000001500)]"
  let ?s1 = "\<lparr>last_command_time = 1700000001000200, running = True\<rparr>"
  have first: "how (process_command (init 1700000000000000) ?H
      1700000001000100 1700000001000200 ?d1) = Dispatched None"
    by (simp add: controller_defs)
  have s1: "?s1 = ctl (process_command (init 1700000000000000) ?H
      1700000001000100 1700000001000200 ?d1)"
    by (simp add: controller_defs)
  have fresh2: "is_command_fresh ?H 1700000001100100 (dict_get ?d2 ''timestamp'') = Inr True"
    by (simp add: controller_defs)
  have fresh3: "is_command_fresh ?H 1700000001500100 (dict_get ?d3 ''timestamp'') = Inr True"
    by (simp add: controller_defs)
  have dup: "process_command ?s1 ?H 1700000001100100 1700000001100200 ?d2 =
      \<lparr>ctl = ?s1, events = [], how = ReturnDuplicate\<rparr>"
    using interval_check_between_two_commands [OF s1 fresh2,
        where ?t2.0 = 1700000001100200]
    using first by simp
  have acc: "process_command ?s1 ?H 1700000001500100 1700000001500200 ?d3 =
      \<lparr>ctl = ?s1\<lparr>last_command_time := 1700000001500200\<rparr>,
       events = fst (dispatch ?H (dict_get ?d3 ''action'') ?d3),
       how = Dispatched (snd (dispatch ?H (dict_get ?d3 ''action'') ?d3))\<rparr>"
    using interval_check_between_two_commands [OF s1 fresh3,
        where ?t2.0 = 1700000001500200]
    by simp
  have times: "accepted_times (init 1700000000000000)
      [(?H, 1700000001000100, 1700000001000200, ?d1),
       (?H, 1700000001100100, 1700000001100200, ?d2),
       (?H, 1700000001500100, 1700000001500200, ?d3)]
      = [1700000001000200, 1700000001500200]"
    by (simp add: controller_defs)
  show ?thesis
    using first fresh2 dup acc times by (simp add: controller_defs)
qed

text \<open>
  Claim C4. Let \<open>r\<close> be the outcome of \<^verbatim>\<open>process_command\<close>. When the record reached
  the routing, the controller differs from the one before only in
  \<^verbatim>\<open>last_command_time\<close>, which is the reading \<open>now2\<close> of line 161, and this holds
  whether the routing ended normally or with an exception: the assignment of line 164
  precedes every action. The record reaches the routing exactly when it is fresh and the
  gap is at least 0.5 seconds, and exactly then the controller changes. On every other
  path, and so for a record turned away by the freshness or the interval check, the
  controller is unchanged and nothing ran.
\<close>
theorem last_command_time_frame:
  assumes r: "r = process_command self os now1 now2 data"
  shows "(\<forall>x. how r = Dispatched x \<longrightarrow>
            ctl r = self\<lparr>last_command_time := now2\<rparr> \<and>
            dispatch os (dict_get data ''action'') data = (events r, x))
       \<and> ((\<forall>x. how r \<noteq> Dispatched x) \<longrightarrow> ctl r = self \<and> events r = [])
       \<and> ((\<exists>x. how r = Dispatched x) \<longleftrightarrow>
            is_command_fresh os now1 (dict_get data ''timestamp'') = Inr True \<and>
            500000 \<le> now2 - last_command_time self)
       \<and> ((\<exists>x. how r = Dispatched x) \<longleftrightarrow> ctl r \<noteq> self)
       \<and> (how r = ReturnStale \<or> how r = ReturnDuplicate \<longrightarrow> ctl r = self)"
proof -
  have upd: "ctl r = self\<lparr>last_command_time := now2\<rparr> \<and>
      dispatch os (dict_get data ''action'') data = (events r, x)"
    if "how r = Dispatched x" for x
    using process_command_dispatched(3,4) [of self os now1 now2 data x] that r by simp
  have frame: "ctl r = self \<and> events r = []" if "\<forall>x. how r \<noteq> Dispatched x"
    using process_command_not_dispatched [of self os now1 now2 data] that r by simp
  have acc: "(\<exists>x. how r = Dispatched x) \<longleftrightarrow>
      is_command_fresh os now1 (dict_get data ''timestamp'') = Inr True \<and>
      500000 \<le> now2 - last_command_time self"
  proof
    assume "\<exists>x. how r = Dispatched x"
    then obtain x where "how (process_command self os now1 now2 data) = Dispatched x"
      using r by auto
    from process_command_dispatched(1,2) [OF this]
    show "is_command_fresh os now1 (dict_get data ''timestamp'') = Inr True \<and>
      500000 \<le> now2 - last_command_time self"
      by simp
  next
    assume "is_command_fresh os now1 (dict_get data ''timestamp'') = Inr True \<and>
      500000 \<le> now2 - last_command_time self"
    then show "\<exists>x. how r = Dispatched x"
      using r by (simp add: process_command_accepted)
  qed
  have changed: "(\<exists>x. how r = Dispatched x) \<longleftrightarrow> ctl r \<noteq> self"
  proof
    assume d: "\<exists>x. how r = Dispatched x"
    then have "500000 \<le> now2 - last_command_time self"
      using acc by simp
    moreover have "last_command_time (ctl r) = now2"
      using d upd by auto
    ultimately show "ctl r \<noteq> self"
      by auto
  next
    assume "ctl r \<noteq> self"
    then show "\<exists>x. how r = Dispatched x"
      using frame by blast
  qed
  have rej: "ctl r = self" if "how r = ReturnStale \<or> how r = ReturnDuplicate"
    using frame that by auto
  show ?thesis
    using upd frame acc changed rej by blast
qed

text \<open>
  On a host without the lock programs the handler of \<^verbatim>\<open>lock\<close> raises, and
  \<^verbatim>\<open>last_command_time\<close> is set all the same; the same record three seconds later is
  stale and leaves the controller as it was.
\<close>
theorem last_command_time_frame_witness:
  "process_command (init 1700000000000000)
        \<lparr>exec = (\<lambda>argv. None), sh = (\<lambda>c. Timeout), utcoffset = (\<lambda>t. 0)\<rparr>
        1700000001000100 1700000001000200
        [(''action'', JStr ''lock''), (''timestamp'', JInt 1700000001000)]
     = \<lparr>ctl = \<lparr>last_command_time = 1700000001000200, running = True\<rparr>,
        events = [Spawn [''gnome-screensaver-command'', ''-l'']],
        how = Dispatched (Some OSError)\<rparr>
   \<and> process_command (init 1700000000000000)
        \<lparr>exec = (\<lambda>argv. None), sh = (\<lambda>c. Timeout), utcoffset = (\<lambda>t. 0)\<rparr>
        1700000004000000 1700000004000100
        [(''action'', JStr ''lock''), (''timestamp'', JInt 1700000001000)]
     = \<lparr>ctl = init 1700000000000000, events = [], how = ReturnStale\<rparr>"
proof -
  let ?H =
      "\<lparr>exec = (\<lambda>argv. None), sh = (\<lambda>c. Timeout), utcoffset = (\<lambda>t. 0)\<rparr>"
  let ?d = "[(''action'', JStr ''lock''), (''timestamp'', JInt 1700000001000)]"
  have a: "how (process_command (init 1700000000000000) ?H
      1700000001000100 1700000001000200 ?d) = Dispatched (Some OSError)"
    by (simp add: controller_defs)
  have b: "how (process_command (init 1700000000000000) ?H
      1700000004000000 1700000004000100 ?d) = ReturnStale"
    by (simp add: controller_defs)
  show ?thesis
    using a b
      last_command_time_frame [OF refl, of "init 1700000000000000" ?H
        1700000001000100 1700000001000200 ?d]
      last_command_time_frame [OF refl, of "init 1700000000000000" ?H
        1700000004000000 1700000004000100 ?d]
    by (simp add: controller_defs)
qed

subsection \<open>Routing\<close>

text \<open>
  Claim C3. The routing of an accepted record: when the action is a key of \<^verbatim>\<open>handlers\<close>
  the handler bound to it runs; otherwise, when the action is \<^verbatim>\<open>custom\<close> and the record
  has the key \<^verbatim>\<open>command\<close>, \<^verbatim>\<open>run_custom\<close> runs on its value, which for a string
  starts a shell on it; otherwise the only event is the line reporting an unknown action,
  and no exception is raised. What \<^verbatim>\<open>process_command\<close> does for a record that
  reaches line 182 is this routing.
\<close>
theorem dispatch_routes:
  "(action = Some (JStr s) \<and> map_of handlers s = Some h \<longrightarrow>
      dispatch os action data = h os)
   \<and> (lookup_handler action = None \<and> action = Some (JStr ''custom'') \<and>
      dict_get data ''command'' = Some command \<longrightarrow>
      dispatch os action data = run_custom os command \<and>
      (\<forall>c. command = JStr c \<longrightarrow> (\<exists>rest. run_custom os command = (SpawnShell c 10 # rest, None))))
   \<and> (lookup_handler action = None \<and>
      (action \<noteq> Some (JStr ''custom'') \<or> dict_get data ''command'' = None) \<longrightarrow>
      dispatch os action data = ([Print (UnknownAction action)], None))
   \<and> (how (process_command self os now1 now2 data) = Dispatched x \<longrightarrow>
      dispatch os (dict_get data ''action'') data =
        (events (process_command self os now1 now2 data), x))"
proof -
  have a: "dispatch os action data = h os"
    if "action = Some (JStr s) \<and> map_of handlers s = Some h"
    using that by (simp add: dispatch_handler)
  have b: "dispatch os action data = run_custom os command \<and>
      (\<forall>c. command = JStr c \<longrightarrow> (\<exists>rest. run_custom os command = (SpawnShell c 10 # rest, None)))"
    if "lookup_handler action = None \<and> action = Some (JStr ''custom'') \<and>
      dict_get data ''command'' = Some command"
    using that by (simp add: dispatch_custom run_custom_string)
  have c: "dispatch os action data = ([Print (UnknownAction action)], None)"
    if "lookup_handler action = None \<and>
      (action \<noteq> Some (JStr ''custom'') \<or> dict_get data ''command'' = None)"
    using that by (simp add: dispatch_unknown)
  have d: "dispatch os (dict_get data ''action'') data =
      (events (process_command self os now1 now2 data), x)"
    if "how (process_command self os now1 now2 data) = Dispatched x"
    using that by (rule process_command_dispatched(4))
  show ?thesis
    using a b c d by blast
qed

text \<open>A registry key, a custom command that exits with code 1, and an unknown name.\<close>
theorem dispatch_routes_witness:
  "dispatch
      \<lparr>exec = (\<lambda>argv. Some (0, [])), sh = (\<lambda>c. Exited 1 []), utcoffset = (\<lambda>t. 0)\<rparr>
      (Some (JStr ''play'')) [(''action'', JStr ''play''), (''timestamp'', JInt 1700000001000)]
     = ([Spawn [''playerctl'', ''play-pause''], Print PlayPause], None)
   \<and> dispatch
        \<lparr>exec = (\<lambda>argv. Some (0, [])), sh = (\<lambda>c. Exited 1 []), utcoffset = (\<lambda>t. 0)\<rparr>
      (Some (JStr ''custom''))
      [(''action'', JStr ''custom''), (''timestamp'', JInt 1700000001000),
       (''command'', JStr ''echo hi'')]
     = ([SpawnShell ''echo hi'' 10, Print (Custom (JStr ''echo hi''))], None)
   \<and> dispatch
        \<lparr>exec = (\<lambda>argv. Some (0, [])), sh = (\<lambda>c. Exited 1 []), utcoffset = (\<lambda>t. 0)\<rparr>
      (Some (JStr ''reboot''))
      [(''action'', JStr ''reboot''), (''timestamp'', JInt 1700000001000)]
     = ([Print (UnknownAction (Some (JStr ''reboot'')))], None)"
proof -
  let ?H =
      "\<lparr>exec = (\<lambda>argv. Some (0, [])), sh = (\<lambda>c. Exited 1 []), utcoffset = (\<lambda>t. 0)\<rparr>"
  have k: "map_of handlers ''play'' = Some play_pause"
    by (simp add: handlers_def)
  have c: "lookup_handler (Some (JStr ''custom'')) = None"
    by (simp add: handlers_def)
  have u: "lookup_handler (Some (JStr ''reboot'')) = None"
    by (simp add: handlers_def)
  show ?thesis
    using k c u
      dispatch_routes [of "Some (JStr ''play'')" "''play''" play_pause ?H
        "[(''action'', JStr ''play''), (''timestamp'', JInt 1700000001000)]"]
      dispatch_routes [of "Some (JStr ''custom'')" _ _ ?H
        "[(''action'', JStr ''custom''), (''timestamp'', JInt 1700000001000),
          (''command'', JStr ''echo hi'')]" "JStr ''echo hi''"]
      dispatch_routes [of "Some (JStr ''reboot'')" _ _ ?H
        "[(''action'', JStr ''reboot''), (''timestamp'', JInt 1700000001000)]"]
    by (simp add: dict_get_def play_pause_def subprocess_run_def seq_def print_def
        run_custom_string)
qed

text \<open>
  Claim C5. \<^verbatim>\<open>run_custom\<close> never raises, whatever the host answers and whatever the
  payload is. On a string it starts a shell on that string under a timeout of 10
  seconds; a completed command, with any exit code, is reported and its standard
  output, when not empty, is printed and used for nothing else; a timeout, a failure to
  start and output that does not decode are reported as a failed command. So a custom
  record that reaches the routing ends normally with the events of \<^verbatim>\<open>run_custom\<close>.
\<close>
theorem run_custom_contains_failures:
  "snd (run_custom os command) = None
   \<and> run_custom os (JStr c) =
       (SpawnShell c 10 #
          (case sh os c of
             Exited rc out \<Rightarrow>
               Print (Custom (JStr c)) # (if out = [] then [] else [Print (Output (strip out))])
           | Timeout \<Rightarrow> [Print (CommandFailed TimeoutExpired)]
           | SpawnError \<Rightarrow> [Print (CommandFailed OSError)]
           | Undecodable \<Rightarrow> [Print (CommandFailed UnicodeDecodeError)]),
        None)
   \<and> (dict_get data ''action'' = Some (JStr ''custom'') \<and>
      dict_get data ''command'' = Some command \<and>
      how (process_command self os now1 now2 data) = Dispatched x \<longrightarrow>
      x = None \<and> events (process_command self os now1 now2 data) = fst (run_custom os command))"
proof -
  have "x = None \<and> events (process_command self os now1 now2 data) = fst (run_custom os command)"
    if h: "dict_get data ''action'' = Some (JStr ''custom'') \<and>
      dict_get data ''command'' = Some command \<and>
      how (process_command self os now1 now2 data) = Dispatched x"
  proof -
    have "dispatch os (dict_get data ''action'') data = run_custom os command"
      using h by (simp add: dispatch_custom)
    moreover have "dispatch os (dict_get data ''action'') data =
        (events (process_command self os now1 now2 data), x)"
      using h process_command_dispatched(4) by blast
    ultimately have "run_custom os command = (events (process_command self os now1 now2 data), x)"
      by simp
    then show ?thesis
      using run_custom_no_raise [of os command] by simp
  qed
  then show ?thesis
    using run_custom_no_raise [of os command] run_custom_string [of os c] by blast
qed

text \<open>
  A command that prints \<^verbatim>\<open>hi\<close> and a newline and exits with code 1, one that runs into
  the timeout, one that cannot be started, one whose output does not decode, and a whole
  call of \<^verbatim>\<open>process_command\<close> with a timeout.
\<close>
theorem run_custom_contains_failures_witness:
  "run_custom
      \<lparr>exec = (\<lambda>argv. None), sh = (\<lambda>c. Exited 1 [104, 105, 10]), utcoffset = (\<lambda>t. 0)\<rparr>
      (JStr ''echo hi; false'')
     = ([SpawnShell ''echo hi; false'' 10, Print (Custom (JStr ''echo hi; false'')),
         Print (Output [104, 105])], None)
   \<and> run_custom
        \<lparr>exec = (\<lambda>argv. None), sh = (\<lambda>c. Timeout), utcoffset = (\<lambda>t. 0)\<rparr>
       (JStr ''sleep 60'')
     = ([SpawnShell ''sleep 60'' 10, Print (CommandFailed TimeoutExpired)], None)
   \<and> run_custom
        \<lparr>exec = (\<lambda>argv. None), sh = (\<lambda>c. SpawnError), utcoffset = (\<lambda>t. 0)\<rparr>
       (JStr ''ls'')
     = ([SpawnShell ''ls'' 10, Print (CommandFailed OSError)], None)
   \<and> run_custom
        \<lparr>exec = (\<lambda>argv. None), sh = (\<lambda>c. Undecodable), utcoffset = (\<lambda>t. 0)\<rparr>
       (JStr ''cat /bin/ls'')
     = ([SpawnShell ''cat /bin/ls'' 10, Print (CommandFailed UnicodeDecodeError)], None)
   \<and> how (process_command (init 1700000000000000)
        \<lparr>exec = (\<lambda>argv. None), sh = (\<lambda>c. Timeout), utcoffset = (\<lambda>t. 0)\<rparr>
        1700000001000100 1700000001000200
        [(''action'', JStr ''custom''), (''timestamp'', JInt 1700000001000),
         (''command'', JStr ''sleep 60'')])
     = Dispatched None
   \<and> events (process_command (init 1700000000000000)
        \<lparr>exec = (\<lambda>argv. None), sh = (\<lambda>c. Timeout), utcoffset = (\<lambda>t. 0)\<rparr>
        1700000001000100 1700000001000200
        [(''action'', JStr ''custom''), (''timestamp'', JInt 1700000001000),
         (''command'', JStr ''sleep 60'')])
     = [SpawnShell ''sleep 60'' 10, Print (CommandFailed TimeoutExpired)]"
proof -
  let ?T =
      "\<lparr>exec = (\<lambda>argv. None), sh = (\<lambda>c. Timeout), utcoffset = (\<lambda>t. 0)\<rparr>"
  let ?d = "[(''action'', JStr ''custom''), (''timestamp'', JInt 1700000001000),
         (''command'', JStr ''sleep 60'')]"
  have a: "how (process_command (init 1700000000000000) ?T
      1700000001000100 1700000001000200 ?d) = Dispatched None"
    by (simp add: controller_defs run_custom_string)
  show ?thesis
    using a
      run_custom_contains_failures [of
        "\<lparr>exec = (\<lambda>argv. None), sh = (\<lambda>c. Exited 1 [104, 105, 10]), utcoffset = (\<lambda>t. 0)\<rparr>"
            _ "''echo hi; false''"]
      run_custom_contains_failures [of ?T "JStr ''sleep 60''" "''sleep 60''" ?d
        "init 1700000000000000" 1700000001000100 1700000001000200 None]
      run_custom_contains_failures [of
        "\<lparr>exec = (\<lambda>argv. None), sh = (\<lambda>c. SpawnError), utcoffset = (\<lambda>t. 0)\<rparr>"
            _ "''ls''"]
      run_custom_contains_failures [of
        "\<lparr>exec = (\<lambda>argv. None), sh = (\<lambda>c. Undecodable), utcoffset = (\<lambda>t. 0)\<rparr>"
            _ "''cat /bin/ls''"]
    by (simp add: dict_get_def strip_def is_space_def)
qed

text \<open>
  Claim C7. The keys of \<^verbatim>\<open>handlers\<close> are the twelve names listed. Each of them is
  routed to its handler, which starts a program first. \<^verbatim>\<open>custom\<close> with a command
  payload is routed to \<^verbatim>\<open>run_custom\<close>, which starts a shell on a string payload;
  \<^verbatim>\<open>custom\<close> without a payload is reported as unknown, and so is every name outside
  the thirteen.
\<close>
theorem recognized_action_names:
  "map fst handlers =
     [''play'', ''pause'', ''next'', ''previous'', ''volume_up'', ''volume_down'', ''mute'',
      ''lock'', ''screenshot'', ''browser'', ''spotify'', ''terminal'']
   \<and> (s \<in> set [''play'', ''pause'', ''next'', ''previous'', ''volume_up'', ''volume_down'',
        ''mute'', ''lock'', ''screenshot'', ''browser'', ''spotify'', ''terminal''] \<longrightarrow>
      (\<exists>h. map_of handlers s = Some h \<and> dispatch os (Some (JStr s)) data = h os) \<and>
      (\<exists>argv rest. fst (dispatch os (Some (JStr s)) data) = Spawn argv # rest))
   \<and> (dict_get data ''command'' = Some command \<longrightarrow>
      dispatch os (Some (JStr ''custom'')) data = run_custom os command \<and>
      (\<forall>c. command = JStr c \<longrightarrow>
        (\<exists>rest. fst (dispatch os (Some (JStr ''custom'')) data) = SpawnShell c 10 # rest)))
   \<and> (dict_get data ''command'' = None \<longrightarrow>
      dispatch os (Some (JStr ''custom'')) data =
        ([Print (UnknownAction (Some (JStr ''custom'')))], None))
   \<and> (s \<notin> set [''play'', ''pause'', ''next'', ''previous'', ''volume_up'', ''volume_down'',
        ''mute'', ''lock'', ''screenshot'', ''browser'', ''spotify'', ''terminal'', ''custom''] \<longrightarrow>
      dispatch os (Some (JStr s)) data = ([Print (UnknownAction (Some (JStr s)))], None))"
proof -
  let ?keys = "[''play'', ''pause'', ''next'', ''previous'', ''volume_up'', ''volume_down'',
        ''mute'', ''lock'', ''screenshot'', ''browser'', ''spotify'', ''terminal'']"
  have known: "(\<exists>h. map_of handlers s = Some h \<and> dispatch os (Some (JStr s)) data = h os) \<and>
      (\<exists>argv rest. fst (dispatch os (Some (JStr s)) data) = Spawn argv # rest)"
    if "s \<in> set ?keys"
  proof -
    have "map_of handlers s \<noteq> None"
      using that map_of_handlers_None [of s] by blast
    then obtain h where h: "map_of handlers s = Some h"
      by blast
    then have "dispatch os (Some (JStr s)) data = h os"
      by (simp add: dispatch_handler)
    then show ?thesis
      using h handler_spawns [OF h, of os] by simp
  qed
  have custom: "dispatch os (Some (JStr ''custom'')) data = run_custom os command \<and>
      (\<forall>c. command = JStr c \<longrightarrow>
        (\<exists>rest. fst (dispatch os (Some (JStr ''custom'')) data) = SpawnShell c 10 # rest))"
    if "dict_get data ''command'' = Some command"
    using that by (simp add: dispatch_custom run_custom_string)
  have bare: "dispatch os (Some (JStr ''custom'')) data =
        ([Print (UnknownAction (Some (JStr ''custom'')))], None)"
    if "dict_get data ''command'' = None"
    using that by (simp add: dispatch_unknown handlers_custom)
  have unknown: "dispatch os (Some (JStr s)) data = ([Print (UnknownAction (Some (JStr s)))], None)"
    if "s \<notin> set [''play'', ''pause'', ''next'', ''previous'', ''volume_up'', ''volume_down'',
        ''mute'', ''lock'', ''screenshot'', ''browser'', ''spotify'', ''terminal'', ''custom'']"
  proof -
    have "map_of handlers s = None" and "s \<noteq> ''custom''"
      using that map_of_handlers_None [of s] by auto
    then show ?thesis
      by (simp add: dispatch_unknown)
  qed
  show ?thesis
    using handlers_keys known custom bare unknown by blast
qed

text \<open>A registry key, \<^verbatim>\<open>custom\<close> with and without a payload, and a foreign name.\<close>
theorem recognized_action_names_witness:
  "dispatch
      \<lparr>exec = (\<lambda>argv. Some (0, [])), sh = (\<lambda>c. Exited 0 []), utcoffset = (\<lambda>t. 0)\<rparr>
      (Some (JStr ''terminal'')) [(''action'', JStr ''terminal'')]
     = ([Spawn [''gnome-terminal''], Print TerminalOpened], None)
   \<and> dispatch
        \<lparr>exec = (\<lambda>argv. Some (0, [])), sh = (\<lambda>c. Exited 0 []), utcoffset = (\<lambda>t. 0)\<rparr>
      (Some (JStr ''custom'')) [(''action'', JStr ''custom''), (''command'', JStr ''date'')]
     = ([SpawnShell ''date'' 10, Print (Custom (JStr ''date''))], None)
   \<and> dispatch
        \<lparr>exec = (\<lambda>argv. Some (0, [])), sh = (\<lambda>c. Exited 0 []), utcoffset = (\<lambda>t. 0)\<rparr>
      (Some (JStr ''custom'')) [(''action'', JStr ''custom'')]
     = ([Print (UnknownAction (Some (JStr ''custom'')))], None)
   \<and> dispatch
        \<lparr>exec = (\<lambda>argv. Some (0, [])), sh = (\<lambda>c. Exited 0 []), utcoffset = (\<lambda>t. 0)\<rparr>
      (Some (JStr ''stop'')) [(''action'', JStr ''stop'')]
     = ([Print (UnknownAction (Some (JStr ''stop'')))], None)"
proof -
  let ?H =
      "\<lparr>exec = (\<lambda>argv. Some (0, [])), sh = (\<lambda>c. Exited 0 []), utcoffset = (\<lambda>t. 0)\<rparr>"
  have t: "map_of handlers ''terminal'' = Some open_terminal"
    by (simp add: handlers_def)
  show ?thesis
    using t
      recognized_action_names [of "''terminal''" ?H "[(''action'', JStr ''terminal'')]"]
      recognized_action_names [of "''stop''" ?H
        "[(''action'', JStr ''custom''), (''command'', JStr ''date'')]" "JStr ''date''"]
      recognized_action_names [of "''stop''" ?H "[(''action'', JStr ''custom'')]"]
      recognized_action_names [of "''stop''" ?H "[(''action'', JStr ''stop'')]"]
    by (simp add: dict_get_def open_terminal_def subprocess_run_def seq_def print_def
        run_custom_string)
qed

end
